theory Spec2Isabelle
  imports Main
begin

section \<open>Python values shared by the models\<close>

text \<open>
  Exceptions are values: every function that can raise returns \<open>py_error + 'a\<close>, with
  \<open>Inl\<close> for the exception. \<open>HTTPException\<close> carries its status code and detail;
  \<open>LibraryError\<close> is an exception raised inside an external library (passlib, jose).
\<close>

datatype py_error =
    ValueError
  | KeyError string
  | TypeError
  | InvalidId
  | ValidationError
  | LibraryError string
  | HTTPException nat string

text \<open>
  The values held by JWT payloads and stored documents. An ObjectId is kept as its
  24-digit hexadecimal rendering, a datetime as a number of seconds. A Python \<open>str\<close>
  is a \<open>string\<close> with one \<open>char\<close> per code point (U+0000 to U+00FF).
\<close>

datatype val =
    VNone
  | VBool bool
  | VInt int
  | VStr string
  | VOid string
  | VDatetime int
  | VList "val list"
  | VDict "(string \<times> val) list"

type_synonym doc = "(string \<times> val) list"

text \<open>Python truthiness, as \<open>not x\<close> and \<open>if x\<close> test it.\<close>

fun truthy :: "val \<Rightarrow> bool" where
  "truthy VNone = False"
| "truthy (VBool b) = b"
| "truthy (VInt i) = (i \<noteq> 0)"
| "truthy (VStr s) = (s \<noteq> [])"
| "truthy (VOid h) = True"
| "truthy (VDatetime t) = True"
| "truthy (VList xs) = (xs \<noteq> [])"
| "truthy (VDict d) = (d \<noteq> [])"

text \<open>\<open>if not d\<close> on the result of \<open>find_one\<close>: None and the empty dict are falsy.\<close>

fun found :: "doc option \<Rightarrow> bool" where
  "found None = False"
| "found (Some d) = (d \<noteq> [])"

text \<open>\<open>d.get(k, default)\<close>, \<open>d[k]\<close> and \<open>d[k] = v\<close> on a dict kept as an association list.\<close>

definition dict_get :: "('k \<times> 'v) list \<Rightarrow> 'k \<Rightarrow> 'v \<Rightarrow> 'v" where
  "dict_get d k dflt = (case map_of d k of None \<Rightarrow> dflt | Some v \<Rightarrow> v)"

definition subscript :: "doc \<Rightarrow> string \<Rightarrow> py_error + val" where
  "subscript d k = (case map_of d k of None \<Rightarrow> Inl (KeyError k) | Some v \<Rightarrow> Inr v)"

fun dict_set :: "doc \<Rightarrow> string \<Rightarrow> val \<Rightarrow> doc" where
  "dict_set [] k v = [(k, v)]"
| "dict_set ((k', v') # d) k v = (if k' = k then (k, v) # d else (k', v') # dict_set d k v)"

fun dict_update :: "doc \<Rightarrow> doc \<Rightarrow> doc" where
  "dict_update d [] = d"
| "dict_update d ((k, v) # kvs) = dict_update (dict_set d k v) kvs"

text \<open>
  The external libraries, taken as parameters: bson's ObjectId, the driver's identifier
  generator, \<open>str()\<close> of a value that is not a string, \<open>date.isoformat\<close> and
  \<open>datetime.strptime\<close> with the format \<open>%Y-%m-%d\<close> over day numbers, jose's JWT codec,
  passlib's hashing and pydantic's validation of a \<open>UserResponse\<close>. \<open>None\<close> stands
  for the library's exception.
\<close>

record ext =
  oid_parse :: "string \<Rightarrow> string option"
  new_oid :: "doc list \<Rightarrow> string"
  py_str :: "val \<Rightarrow> string"
  isoformat :: "int \<Rightarrow> string"
  strptime :: "string \<Rightarrow> int option"
  jwt_decode :: "string \<Rightarrow> doc option"
  jwt_encode :: "doc \<Rightarrow> string option"
  pwd_verify :: "string \<Rightarrow> val \<Rightarrow> bool option"
  pwd_hash :: "string \<Rightarrow> string"
  user_response_valid :: "doc \<Rightarrow> bool"

text \<open>\<open>str(v)\<close>: a string is itself, an ObjectId its hexadecimal rendering.\<close>

fun str_of :: "ext \<Rightarrow> val \<Rightarrow> string" where
  "str_of x (VStr s) = s"
| "str_of x (VOid h) = h"
| "str_of x v = py_str x v"

text \<open>
  \<open>ObjectId(v)\<close>: a string is parsed (InvalidId when it is not an identifier), an
  ObjectId is copied, None asks for a newly generated identifier, anything else is a
  TypeError. \<open>ObjectId.is_valid(s)\<close> is false on the empty string and where the
  constructor raises.
\<close>

fun ObjectId :: "ext \<Rightarrow> val \<Rightarrow> py_error + string" where
  "ObjectId x (VStr s) = (case oid_parse x s of None \<Rightarrow> Inl InvalidId | Some h \<Rightarrow> Inr h)"
| "ObjectId x (VOid h) = Inr h"
| "ObjectId x VNone = Inr (new_oid x [])"
| "ObjectId x v = Inl TypeError"

definition ObjectId_is_valid :: "ext \<Rightarrow> string \<Rightarrow> bool" where
  "ObjectId_is_valid x s = (s \<noteq> [] \<and> oid_parse x s \<noteq> None)"

section \<open>The document store\<close>

text \<open>
  A collection is the list of its documents in natural order. A query is a conjunction
  of conditions on fields: equality, \<open>$in\<close>, and a string range
  \<open>{"$gte": lo, "$lte": hi}\<close>. An equality on a field holding an array also matches
  an element of the array, and \<open>None\<close> also matches a missing field; strings compare
  by code points, and a range with string bounds matches strings only.
\<close>

datatype cond = Eq val | In "val list" | Between string string

type_synonym query = "(string \<times> cond) list"

fun str_le :: "string \<Rightarrow> string \<Rightarrow> bool" where
  "str_le [] t = True"
| "str_le (a # s) [] = False"
| "str_le (a # s) (b # t) = ((of_char a :: nat) < of_char b \<or> (a = b \<and> str_le s t))"

fun field_equals :: "val option \<Rightarrow> val \<Rightarrow> bool" where
  "field_equals None v = (v = VNone)"
| "field_equals (Some (VList xs)) v = (VList xs = v \<or> v \<in> set xs)"
| "field_equals (Some w) v = (w = v)"

fun str_at_least :: "string \<Rightarrow> val \<Rightarrow> bool" where
  "str_at_least lo (VStr s) = str_le lo s"
| "str_at_least lo v = False"

fun str_at_most :: "string \<Rightarrow> val \<Rightarrow> bool" where
  "str_at_most hi (VStr s) = str_le s hi"
| "str_at_most hi v = False"

fun field_between :: "val option \<Rightarrow> string \<Rightarrow> string \<Rightarrow> bool" where
  "field_between None lo hi = False"
| "field_between (Some (VList xs)) lo hi =
     (list_ex (str_at_least lo) xs \<and> list_ex (str_at_most hi) xs)"
| "field_between (Some w) lo hi = (str_at_least lo w \<and> str_at_most hi w)"

fun field_matches :: "doc \<Rightarrow> string \<times> cond \<Rightarrow> bool" where
  "field_matches d (k, Eq v) = field_equals (map_of d k) v"
| "field_matches d (k, In vs) = list_ex (field_equals (map_of d k)) vs"
| "field_matches d (k, Between lo hi) = field_between (map_of d k) lo hi"

definition matches :: "query \<Rightarrow> doc \<Rightarrow> bool" where
  "matches q d = list_all (field_matches d) q"

definition find_one :: "doc list \<Rightarrow> query \<Rightarrow> doc option" where
  "find_one coll q = List.find (matches q) coll"

text \<open>\<open>coll.find(q).to_list(n)\<close>: the first \<open>n\<close> matching documents.\<close>

definition find_to_list :: "doc list \<Rightarrow> query \<Rightarrow> nat \<Rightarrow> doc list" where
  "find_to_list coll q n = take n (filter (matches q) coll)"

text \<open>
  \<open>insert_one\<close> of a document without \<open>_id\<close> (none of the documents this code
  inserts has one): the driver adds a generated identifier.
\<close>

definition insert_one :: "ext \<Rightarrow> doc list \<Rightarrow> doc \<Rightarrow> doc list" where
  "insert_one x coll d = coll @ [d @ [(''_id'', VOid (new_oid x coll))]]"

text \<open>\<open>update_one(q, {"$set": s})\<close> and \<open>delete_one(q)\<close> act on the first match.\<close>

fun update_one :: "doc list \<Rightarrow> query \<Rightarrow> doc \<Rightarrow> doc list" where
  "update_one [] q s = []"
| "update_one (d # coll) q s =
     (if matches q d then dict_update d s # coll else d # update_one coll q s)"

fun delete_one :: "doc list \<Rightarrow> query \<Rightarrow> doc list" where
  "delete_one [] q = []"
| "delete_one (d # coll) q = (if matches q d then coll else d # delete_one coll q)"

record database =
  usuarios :: "doc list"
  nna :: "doc list"
  intervenciones :: "doc list"
  talleres :: "doc list"
  medidas_judiciales :: "doc list"
  alertas :: "doc list"

section \<open>Role hierarchy (middleware/rbac.py)\<close>

definition ROLE_HIERARCHY :: "(string \<times> int) list" where
  "ROLE_HIERARCHY =
     [(''viewer'', 1), (''tecnico'', 2), (''coordinador'', 3), (''admin'', 4)]"

definition has_permission :: "string \<Rightarrow> string \<Rightarrow> bool" where
  "has_permission user_role required_role =
     (let user_level = dict_get ROLE_HIERARCHY user_role 0;
          required_level = dict_get ROLE_HIERARCHY required_role 0
      in user_level \<ge> required_level)"

text \<open>
  The role order as the specification words it: the ordered set
  viewer < tecnico < coordinador < admin, a role's rank being its place in it.
\<close>

definition role_order :: "string list" where
  "role_order = [''viewer'', ''tecnico'', ''coordinador'', ''admin'']"

fun place_in :: "string list \<Rightarrow> string \<Rightarrow> nat" where
  "place_in [] r = 0"
| "place_in (x # xs) r = (if x = r then 0 else Suc (place_in xs r))"

definition role_rank :: "string \<Rightarrow> nat" where
  "role_rank r = place_in role_order r"

definition known_role :: "string \<Rightarrow> bool" where
  "known_role r = (r \<in> set (map fst ROLE_HIERARCHY))"

section \<open>RUT validator (utils/validators.py)\<close>

text \<open>
  A Python \<open>str\<close> is a sequence of code points. The argument of the validator is taken
  over the code points U+0000 to U+00FF, one \<open>char\<close> per code point; \<open>upper()\<close> can
  leave that range (U+00B5 and U+00FF) and can lengthen the string (U+00DF), so the
  cleaned string is a list of code points. \<open>isdigit_cp\<close> and \<open>int_of_char\<close> are
  \<open>str.isdigit\<close> and \<open>int\<close> on the code points \<open>upper\<close> yields here:
  \<open>isdigit\<close> accepts the superscript digits U+00B2, U+00B3 and U+00B9, which
  \<open>int\<close> rejects with ValueError.
\<close>

definition upper_char :: "char \<Rightarrow> nat list" where
  "upper_char c =
     (let n = (of_char c :: nat) in
      if 97 \<le> n \<and> n \<le> 122 then [n - 32]
      else if n = 181 then [924]
      else if n = 223 then [83, 83]
      else if (224 \<le> n \<and> n \<le> 246) \<or> (248 \<le> n \<and> n \<le> 254) then [n - 32]
      else if n = 255 then [376]
      else [n])"

definition upper :: "string \<Rightarrow> nat list" where
  "upper s = concat (map upper_char s)"

definition replace_by_empty :: "nat \<Rightarrow> nat list \<Rightarrow> nat list" where
  "replace_by_empty c s = filter (\<lambda>x. x \<noteq> c) s"

definition isdigit_cp :: "nat \<Rightarrow> bool" where
  "isdigit_cp n = ((48 \<le> n \<and> n \<le> 57) \<or> n = 178 \<or> n = 179 \<or> n = 185)"

definition isdigit :: "nat list \<Rightarrow> bool" where
  "isdigit s = (s \<noteq> [] \<and> list_all isdigit_cp s)"

definition int_of_char :: "nat \<Rightarrow> py_error + int" where
  "int_of_char n = (if 48 \<le> n \<and> n \<le> 57 then Inr (int n - 48) else Inl ValueError)"

fun str_nat :: "nat \<Rightarrow> nat list" where
  "str_nat n = (if n < 10 then [48 + n] else str_nat (n div 10) @ [48 + n mod 10])"

declare str_nat.simps [simp del]

definition str_int :: "int \<Rightarrow> nat list" where
  "str_int i = (if i < 0 then 45 # str_nat (nat (- i)) else str_nat (nat i))"

fun suma_loop :: "nat list \<Rightarrow> int \<Rightarrow> int \<Rightarrow> py_error + int" where
  "suma_loop [] suma multiplo = Inr suma"
| "suma_loop (d # ds) suma multiplo =
     (case int_of_char d of
        Inl e \<Rightarrow> Inl e
      | Inr v \<Rightarrow> suma_loop ds (suma + v * multiplo) (if multiplo < 7 then multiplo + 1 else 2))"

definition validate_rut_chile :: "string \<Rightarrow> py_error + bool" where
  "validate_rut_chile rut0 =
     (if rut0 = [] then Inr True
      else
        let rut = replace_by_empty 45 (replace_by_empty 46 (upper rut0)) in
        if length rut < 2 then Inr False
        else
          let cuerpo = butlast rut; dv = [last rut] in
          if \<not> isdigit cuerpo then Inr False
          else
            case suma_loop (rev cuerpo) 0 2 of
              Inl e \<Rightarrow> Inl e
            | Inr suma \<Rightarrow>
                let dv_calculado = 11 - (suma mod 11) in
                Inr (dv = (if dv_calculado = 11 then [48]
                           else if dv_calculado = 10 then [75]
                           else str_int dv_calculado)))"










section \<open>Authentication (utils/security.py, middleware/auth.py, routers/auth.py)\<close>

record TokenData =
  user_id :: "string option"
  email :: "string option"
  rol :: "string option"

record UserLogin =
  login_email :: string
  password :: string

record Token =
  access_token :: string
  refresh_token :: string
  token_type :: string
  expires_in :: int
  token_user :: doc

text \<open>
  An \<open>Optional[str]\<close> field of a pydantic model: None and a string are accepted, any
  other value is a validation error.
\<close>

fun optional_str :: "val \<Rightarrow> py_error + string option" where
  "optional_str VNone = Inr None"
| "optional_str (VStr s) = Inr (Some s)"
| "optional_str v = Inl ValidationError"

fun val_of_optional_str :: "string option \<Rightarrow> val" where
  "val_of_optional_str None = VNone"
| "val_of_optional_str (Some s) = VStr s"

definition ACCESS_TOKEN_EXPIRE_MINUTES :: int where
  "ACCESS_TOKEN_EXPIRE_MINUTES = 30"

definition REFRESH_TOKEN_EXPIRE_DAYS :: int where
  "REFRESH_TOKEN_EXPIRE_DAYS = 7"

definition create_access_token :: "ext \<Rightarrow> int \<Rightarrow> doc \<Rightarrow> int option \<Rightarrow> string option" where
  "create_access_token x now data expires_delta =
     (let expire = (case expires_delta of
                      None \<Rightarrow> now + ACCESS_TOKEN_EXPIRE_MINUTES * 60
                    | Some delta \<Rightarrow> if delta \<noteq> 0 then now + delta
                                   else now + ACCESS_TOKEN_EXPIRE_MINUTES * 60);
          to_encode = dict_update data
            [(''exp'', VDatetime expire), (''iat'', VDatetime now), (''type'', VStr ''access'')]
      in jwt_encode x to_encode)"

definition create_refresh_token :: "ext \<Rightarrow> int \<Rightarrow> doc \<Rightarrow> string option" where
  "create_refresh_token x now data =
     (let expire = now + REFRESH_TOKEN_EXPIRE_DAYS * 86400;
          to_encode = dict_update data
            [(''exp'', VDatetime expire), (''iat'', VDatetime now), (''type'', VStr ''refresh'')]
      in jwt_encode x to_encode)"

definition decode_token :: "ext \<Rightarrow> string \<Rightarrow> doc option" where
  "decode_token x token = jwt_decode x token"

definition verify_token_type :: "doc \<Rightarrow> string \<Rightarrow> bool" where
  "verify_token_type payload expected_type = (dict_get payload ''type'' VNone = VStr expected_type)"

definition credentials_exception :: py_error where
  "credentials_exception = HTTPException 401 (''Credenciales inv'' @ [CHR 0xE1] @ ''lidas'')"

definition tipo_de_token_invalido :: py_error where
  "tipo_de_token_invalido = HTTPException 401 (''Tipo de token inv'' @ [CHR 0xE1] @ ''lido'')"

definition usuario_no_encontrado :: py_error where
  "usuario_no_encontrado = HTTPException 404 ''Usuario no encontrado''"


definition usuario_desactivado_login :: py_error where
  "usuario_desactivado_login =
     HTTPException 403 ''Usuario desactivado. Contacte al administrador.''"

definition credenciales_incorrectas :: py_error where
  "credenciales_incorrectas =
     HTTPException 401 (''Email o contrase'' @ [CHR 0xF1] @ ''a incorrectos'')"

definition get_current_user :: "ext \<Rightarrow> string \<Rightarrow> py_error + TokenData" where
  "get_current_user x token =
     (case decode_token x token of
        None \<Rightarrow> Inl credentials_exception
      | Some payload \<Rightarrow>
          (if \<not> verify_token_type payload ''access'' then Inl tipo_de_token_invalido
           else
             (let uid = dict_get payload ''sub'' VNone;
                  em = dict_get payload ''email'' VNone;
                  r = dict_get payload ''rol'' VNone
              in (if uid = VNone \<or> em = VNone then Inl credentials_exception
                  else
                    (case optional_str uid of
                       Inl e \<Rightarrow> Inl e
                     | Inr uid' \<Rightarrow>
                        (case optional_str em of
                           Inl e \<Rightarrow> Inl e
                         | Inr em' \<Rightarrow>
                            (case optional_str r of
                               Inl e \<Rightarrow> Inl e
                             | Inr r' \<Rightarrow>
                                Inr \<lparr>user_id = uid', email = em', rol = r'\<rparr>)))))))"


text \<open>
  \<open>login\<close> after the password check and the update of \<open>ultimo_acceso\<close>: the token
  data, the two tokens and the response.
\<close>

definition login_response :: "ext \<Rightarrow> int \<Rightarrow> doc \<Rightarrow> py_error + Token" where
  "login_response x now user =
     (case subscript user ''_id'' of Inl e \<Rightarrow> Inl e | Inr uid \<Rightarrow>
     (case subscript user ''email'' of Inl e \<Rightarrow> Inl e | Inr em \<Rightarrow>
     (case subscript user ''rol'' of Inl e \<Rightarrow> Inl e | Inr r \<Rightarrow>
     (case subscript user ''nombre'' of Inl e \<Rightarrow> Inl e | Inr nm \<Rightarrow>
       (let token_data = [(''sub'', VStr (str_of x uid)), (''email'', em), (''rol'', r),
                          (''nombre'', nm)]
        in (case create_access_token x now token_data None of
              None \<Rightarrow> Inl (LibraryError ''jose'')
            | Some at \<Rightarrow>
               (case create_refresh_token x now token_data of
                  None \<Rightarrow> Inl (LibraryError ''jose'')
                | Some rt \<Rightarrow>
                   (let response = [(''id'', VStr (str_of x uid)), (''email'', em),
                          (''nombre'', nm), (''rol'', r),
                          (''activo'', dict_get user ''activo'' (VBool True)),
                          (''ultimo_acceso'', VDatetime now),
                          (''creado_en'', dict_get user ''creado_en'' (VDatetime now))]
                    in (if user_response_valid x response
                        then Inr \<lparr>access_token = at, refresh_token = rt,
                                  token_type = ''bearer'', expires_in = 30 * 60,
                                  token_user = response\<rparr>
                        else Inl ValidationError)))))))))"

definition login :: "ext \<Rightarrow> int \<Rightarrow> UserLogin \<Rightarrow> database \<Rightarrow> (py_error + Token) \<times> database" where
  "login x now credentials db =
     (case find_one (usuarios db) [(''email'', Eq (VStr (login_email credentials)))] of
        None \<Rightarrow> (Inl credenciales_incorrectas, db)
      | Some user \<Rightarrow>
          (if user = [] then (Inl credenciales_incorrectas, db)
           else if \<not> truthy (dict_get user ''activo'' (VBool True))
           then (Inl usuario_desactivado_login, db)
           else
             (case subscript user ''password_hash'' of
                Inl e \<Rightarrow> (Inl e, db)
              | Inr h \<Rightarrow>
                 (case pwd_verify x (password credentials) h of
                    None \<Rightarrow> (Inl (LibraryError ''passlib''), db)
                  | Some False \<Rightarrow> (Inl credenciales_incorrectas, db)
                  | Some True \<Rightarrow>
                     (case subscript user ''_id'' of
                        Inl e \<Rightarrow> (Inl e, db)
                      | Inr uid \<Rightarrow>
                         (let db' = db\<lparr>usuarios := update_one (usuarios db)
                                     [(''_id'', Eq uid)] [(''ultimo_acceso'', VDatetime now)]\<rparr>
                          in (login_response x now user, db')))))))"


section \<open>A test double for the external libraries\<close>

text \<open>
  Used to run the models on concrete inputs: identifiers are 24 hexadecimal digits, the
  calendar is January 2025 (day number \<open>n\<close> is 2025-01-n), a password hash is the
  password after \<open>hash:\<close>, and two tokens decode.
\<close>

definition hex_digit :: "char \<Rightarrow> bool" where
  "hex_digit c = (c \<in> set ''0123456789abcdefABCDEF'')"

definition two_digits :: "nat \<Rightarrow> string" where
  "two_digits n = [char_of (48 + n div 10), char_of (48 + n mod 10)]"

definition fixture_isoformat :: "int \<Rightarrow> string" where
  "fixture_isoformat n = ''2025-01-'' @ two_digits (nat n)"

definition fixture_strptime :: "string \<Rightarrow> int option" where
  "fixture_strptime s = map_option fst (List.find (\<lambda>(n, t). t = s)
     (map (\<lambda>n. (n, fixture_isoformat n)) [1..31]))"

definition fixture_jwt_decode :: "string \<Rightarrow> doc option" where
  "fixture_jwt_decode t =
     (if t = ''access-token'' then
        Some [(''sub'', VStr ''u1''), (''email'', VStr ''ana@residencia.cl''),
              (''rol'', VStr ''tecnico''), (''type'', VStr ''access'')]
      else if t = ''refresh-token'' then
        Some [(''sub'', VStr ''u1''), (''email'', VStr ''ana@residencia.cl''),
              (''rol'', VStr ''tecnico''), (''type'', VStr ''refresh'')]
      else None)"

definition fixture :: ext where
  "fixture =
     \<lparr>oid_parse = (\<lambda>s. if length s = 24 \<and> list_all hex_digit s then Some s else None),
      new_oid = (\<lambda>coll. replicate 22 (CHR ''0'') @ two_digits (length coll)),
      py_str = (\<lambda>v. ''?''),
      isoformat = fixture_isoformat,
      strptime = fixture_strptime,
      jwt_decode = fixture_jwt_decode,
      jwt_encode = (\<lambda>d. Some ''jwt''),
      pwd_verify = (\<lambda>p h. Some (h = VStr (''hash:'' @ p))),
      pwd_hash = (\<lambda>p. ''hash:'' @ p),
      user_response_valid = (\<lambda>d. True)\<rparr>"











section \<open>User accounts (routers/users.py, routers/auth.py, database.py)\<close>

record UserCreate =
  uc_email :: string
  uc_nombre :: string
  uc_rol :: string
  uc_activo :: bool
  uc_password :: string

record UserUpdate =
  uu_nombre :: "string option"
  uu_rol :: "string option"
  uu_activo :: "bool option"
  uu_password :: "string option"

definition ADMIN_EMAIL :: string where
  "ADMIN_EMAIL = ''admin@residencia.cl''"

definition ADMIN_NOMBRE :: string where
  "ADMIN_NOMBRE = ''Administrador del Sistema''"

definition ADMIN_PASSWORD :: string where
  "ADMIN_PASSWORD = ''AdminNNA2025!''"

definition id_de_usuario_invalido :: py_error where
  "id_de_usuario_invalido = HTTPException 400 (''ID de usuario inv'' @ [CHR 0xE1] @ ''lido'')"

definition no_eliminar_admin_principal :: py_error where
  "no_eliminar_admin_principal =
     HTTPException 403 ''No se puede eliminar el usuario administrador principal''"

definition no_editar_admin_principal :: py_error where
  "no_editar_admin_principal =
     HTTPException 403 ''No se puede editar el usuario administrador principal''"

definition no_eliminar_propio_usuario :: py_error where
  "no_eliminar_propio_usuario = HTTPException 400 ''No puede eliminar su propio usuario''"

definition email_ya_existe :: py_error where
  "email_ya_existe = HTTPException 400 ''Ya existe un usuario con este email''"

definition contrasena_corta :: py_error where
  "contrasena_corta =
     HTTPException 400 (''La contrase'' @ [CHR 0xF1] @ ''a debe tener al menos 8 caracteres'')"

definition nueva_contrasena_corta :: py_error where
  "nueva_contrasena_corta =
     HTTPException 400
       (''La nueva contrase'' @ [CHR 0xF1] @ ''a debe tener al menos 8 caracteres'')"

definition contrasena_actual_incorrecta :: py_error where
  "contrasena_actual_incorrecta =
     HTTPException 400 (''Contrase'' @ [CHR 0xF1] @ ''a actual incorrecta'')"

text \<open>
  \<open>UserResponse(id=str(u["_id"]), email=u["email"], nombre=u["nombre"], rol=u["rol"],
  activo=u.get("activo", True), ultimo_acceso=u.get("ultimo_acceso"),
  creado_en=u.get("creado_en", now))\<close>, as \<open>update_user\<close> builds it.
\<close>

definition user_response :: "ext \<Rightarrow> int \<Rightarrow> doc \<Rightarrow> py_error + doc" where
  "user_response x now u =
     (case subscript u ''_id'' of Inl e \<Rightarrow> Inl e | Inr uid \<Rightarrow>
     (case subscript u ''email'' of Inl e \<Rightarrow> Inl e | Inr em \<Rightarrow>
     (case subscript u ''nombre'' of Inl e \<Rightarrow> Inl e | Inr nm \<Rightarrow>
     (case subscript u ''rol'' of Inl e \<Rightarrow> Inl e | Inr r \<Rightarrow>
       (let response = [(''id'', VStr (str_of x uid)), (''email'', em), (''nombre'', nm),
                        (''rol'', r), (''activo'', dict_get u ''activo'' (VBool True)),
                        (''ultimo_acceso'', dict_get u ''ultimo_acceso'' VNone),
                        (''creado_en'', dict_get u ''creado_en'' (VDatetime now))]
        in (if user_response_valid x response then Inr response
            else Inl ValidationError))))))"

definition create_user ::
  "ext \<Rightarrow> int \<Rightarrow> UserCreate \<Rightarrow> TokenData \<Rightarrow> database \<Rightarrow> (py_error + doc) \<times> database" where
  "create_user x now user_data current_user db =
     (if found (find_one (usuarios db) [(''email'', Eq (VStr (uc_email user_data)))])
      then (Inl email_ya_existe, db)
      else
        let new_user = [(''email'', VStr (uc_email user_data)),
                        (''nombre'', VStr (uc_nombre user_data)),
                        (''rol'', VStr (uc_rol user_data)),
                        (''activo'', VBool (uc_activo user_data)),
                        (''password_hash'', VStr (pwd_hash x (uc_password user_data))),
                        (''creado_en'', VDatetime now),
                        (''ultimo_acceso'', VNone)];
            inserted_id = new_oid x (usuarios db);
            db' = db\<lparr>usuarios := insert_one x (usuarios db) new_user\<rparr>;
            response = [(''id'', VStr inserted_id), (''email'', VStr (uc_email user_data)),
                        (''nombre'', VStr (uc_nombre user_data)),
                        (''rol'', VStr (uc_rol user_data)),
                        (''activo'', VBool (uc_activo user_data)),
                        (''ultimo_acceso'', VNone), (''creado_en'', VDatetime now)]
        in (if user_response_valid x response then Inr response else Inl ValidationError, db'))"

text \<open>The \<open>$set\<close> document \<open>update_user\<close> builds from the fields that are not None.\<close>

definition update_user_data :: "ext \<Rightarrow> int \<Rightarrow> UserUpdate \<Rightarrow> doc" where
  "update_user_data x now user_data =
     (let update_data = [(''actualizado_en'', VDatetime now)];
          update_data = (case uu_nombre user_data of None \<Rightarrow> update_data
            | Some n \<Rightarrow> dict_set update_data ''nombre'' (VStr n));
          update_data = (case uu_rol user_data of None \<Rightarrow> update_data
            | Some r \<Rightarrow> dict_set update_data ''rol'' (VStr r));
          update_data = (case uu_activo user_data of None \<Rightarrow> update_data
            | Some a \<Rightarrow> dict_set update_data ''activo'' (VBool a));
          update_data = (case uu_password user_data of None \<Rightarrow> update_data
            | Some p \<Rightarrow> dict_set update_data ''password_hash'' (VStr (pwd_hash x p)))
      in update_data)"

definition update_user ::
  "ext \<Rightarrow> int \<Rightarrow> string \<Rightarrow> UserUpdate \<Rightarrow> TokenData \<Rightarrow> database \<Rightarrow> (py_error + doc) \<times> database" where
  "update_user x now uid user_data current_user db =
     (if \<not> ObjectId_is_valid x uid then (Inl id_de_usuario_invalido, db)
      else
        (case ObjectId x (VStr uid) of
           Inl e \<Rightarrow> (Inl e, db)
         | Inr oid \<Rightarrow>
            (case find_one (usuarios db) [(''_id'', Eq (VOid oid))] of
               None \<Rightarrow> (Inl usuario_no_encontrado, db)
             | Some existing \<Rightarrow>
                (if existing = [] then (Inl usuario_no_encontrado, db)
                 else
                   (case subscript existing ''email'' of
                      Inl e \<Rightarrow> (Inl e, db)
                    | Inr em \<Rightarrow>
                       (if em = VStr ''admin@residencia.cl'' \<and>
                           email current_user \<noteq> Some ''admin@residencia.cl''
                        then (Inl no_editar_admin_principal, db)
                        else
                          (let update_data = update_user_data x now user_data;
                               db' = db\<lparr>usuarios := update_one (usuarios db)
                                       [(''_id'', Eq (VOid oid))] update_data\<rparr>
                           in (case find_one (usuarios db') [(''_id'', Eq (VOid oid))] of
                                 None \<Rightarrow> (Inl TypeError, db')
                               | Some updated \<Rightarrow> (user_response x now updated, db')))))))))"

definition delete_user ::
  "ext \<Rightarrow> string \<Rightarrow> TokenData \<Rightarrow> database \<Rightarrow> (py_error + string) \<times> database" where
  "delete_user x uid current_user db =
     (if \<not> ObjectId_is_valid x uid then (Inl id_de_usuario_invalido, db)
      else
        (case ObjectId x (VStr uid) of
           Inl e \<Rightarrow> (Inl e, db)
         | Inr oid \<Rightarrow>
            (case find_one (usuarios db) [(''_id'', Eq (VOid oid))] of
               None \<Rightarrow> (Inl usuario_no_encontrado, db)
             | Some existing \<Rightarrow>
                (if existing = [] then (Inl usuario_no_encontrado, db)
                 else
                   (case subscript existing ''email'' of
                      Inl e \<Rightarrow> (Inl e, db)
                    | Inr em \<Rightarrow>
                       (if em = VStr ''admin@residencia.cl''
                        then (Inl no_eliminar_admin_principal, db)
                        else
                          (case subscript existing ''_id'' of
                             Inl e \<Rightarrow> (Inl e, db)
                           | Inr own \<Rightarrow>
                              (if Some (str_of x own) = user_id current_user
                               then (Inl no_eliminar_propio_usuario, db)
                               else (Inr ''Usuario eliminado correctamente'',
                                     db\<lparr>usuarios := delete_one (usuarios db)
                                          [(''_id'', Eq (VOid oid))]\<rparr>)))))))))"

definition reset_password ::
  "ext \<Rightarrow> int \<Rightarrow> string \<Rightarrow> string \<Rightarrow> TokenData \<Rightarrow> database \<Rightarrow> (py_error + string) \<times> database" where
  "reset_password x now uid new_password current_user db =
     (if \<not> ObjectId_is_valid x uid then (Inl id_de_usuario_invalido, db)
      else if length new_password < 8 then (Inl contrasena_corta, db)
      else
        (case ObjectId x (VStr uid) of
           Inl e \<Rightarrow> (Inl e, db)
         | Inr oid \<Rightarrow>
            (case find_one (usuarios db) [(''_id'', Eq (VOid oid))] of
               None \<Rightarrow> (Inl usuario_no_encontrado, db)
             | Some user \<Rightarrow>
                (if user = [] then (Inl usuario_no_encontrado, db)
                 else
                   (let db' = db\<lparr>usuarios := update_one (usuarios db)
                               [(''_id'', Eq (VOid oid))]
                               [(''password_hash'', VStr (pwd_hash x new_password)),
                                (''actualizado_en'', VDatetime now)]\<rparr>
                    in (case subscript user ''email'' of
                          Inl e \<Rightarrow> (Inl e, db')
                        | Inr em \<Rightarrow>
                           (Inr (''Contrase'' @ [CHR 0xF1] @ ''a reseteada correctamente''),
                            db')))))))"

definition change_password ::
  "ext \<Rightarrow> int \<Rightarrow> string \<Rightarrow> string \<Rightarrow> TokenData \<Rightarrow> database \<Rightarrow> (py_error + string) \<times> database" where
  "change_password x now current_password new_password current_user db =
     (let key = [(''_id'', Eq (val_of_optional_str (user_id current_user)))] in
      (case find_one (usuarios db) key of
         None \<Rightarrow> (Inl usuario_no_encontrado, db)
       | Some user \<Rightarrow>
          (if user = [] then (Inl usuario_no_encontrado, db)
           else
             (case subscript user ''password_hash'' of
                Inl e \<Rightarrow> (Inl e, db)
              | Inr h \<Rightarrow>
                 (case pwd_verify x current_password h of
                    None \<Rightarrow> (Inl (LibraryError ''passlib''), db)
                  | Some False \<Rightarrow> (Inl contrasena_actual_incorrecta, db)
                  | Some True \<Rightarrow>
                     (if length new_password < 8 then (Inl nueva_contrasena_corta, db)
                      else (Inr (''Contrase'' @ [CHR 0xF1] @ ''a cambiada correctamente''),
                            db\<lparr>usuarios := update_one (usuarios db) key
                                 [(''password_hash'', VStr (pwd_hash x new_password)),
                                  (''actualizado_en'', VDatetime now)]\<rparr>)))))))"

text \<open>\<open>init_admin_user\<close> logs every exception and returns nothing.\<close>

definition init_admin_user :: "ext \<Rightarrow> int \<Rightarrow> database \<Rightarrow> database" where
  "init_admin_user x now db =
     (if found (find_one (usuarios db) [(''email'', Eq (VStr ADMIN_EMAIL))]) then db
      else db\<lparr>usuarios := insert_one x (usuarios db)
             [(''email'', VStr ADMIN_EMAIL), (''nombre'', VStr ADMIN_NOMBRE),
              (''rol'', VStr ''admin''),
              (''password_hash'', VStr (pwd_hash x ADMIN_PASSWORD)),
              (''activo'', VBool True), (''ultimo_acceso'', VNone),
              (''creado_en'', VDatetime now)]\<rparr>)"

text \<open>
  The operations of the system that write to the accounts collection, and the state
  each leaves behind.
\<close>

datatype account_operation =
    Login UserLogin
  | ChangePassword string string TokenData
  | CreateUser UserCreate TokenData
  | UpdateUser string UserUpdate TokenData
  | DeleteUser string TokenData
  | ResetPassword string string TokenData
  | InitAdminUser

fun run_operation :: "ext \<Rightarrow> int \<Rightarrow> account_operation \<Rightarrow> database \<Rightarrow> database" where
  "run_operation x now (Login c) db = snd (login x now c db)"
| "run_operation x now (ChangePassword cur new u) db = snd (change_password x now cur new u db)"
| "run_operation x now (CreateUser d u) db = snd (create_user x now d u db)"
| "run_operation x now (UpdateUser i d u) db = snd (update_user x now i d u db)"
| "run_operation x now (DeleteUser i u) db = snd (delete_user x i u db)"
| "run_operation x now (ResetPassword i p u) db = snd (reset_password x now i p u db)"
| "run_operation x now InitAdminUser db = init_admin_user x now db"

definition root_admin :: "doc \<Rightarrow> bool" where
  "root_admin d = (map_of d ''email'' = Some (VStr ''admin@residencia.cl''))"

text \<open>A root administrator account stored before an operation is stored after it.\<close>

definition still_there :: "doc \<Rightarrow> doc list \<Rightarrow> bool" where
  "still_there d coll =
     (\<exists>d' \<in> set coll. root_admin d' \<and> map_of d' ''_id'' = map_of d ''_id'')"

text \<open>The root administrator's account, another administrator as caller.\<close>

definition cuenta_admin :: doc where
  "cuenta_admin =
     [(''_id'', VOid ''65a000000000000000000001''), (''email'', VStr ''admin@residencia.cl''),
      (''nombre'', VStr ''Administrador del Sistema''), (''rol'', VStr ''admin''),
      (''password_hash'', VStr ''hash:AdminNNA2025!''), (''activo'', VBool True)]"

definition db_admin :: database where
  "db_admin =
     \<lparr>usuarios = [cuenta_admin], nna = [], intervenciones = [], talleres = [],
      medidas_judiciales = [], alertas = []\<rparr>"

definition otro_admin :: TokenData where
  "otro_admin =
     \<lparr>user_id = Some ''65a000000000000000000002'', email = Some ''eva@residencia.cl'',
      rol = Some ''admin''\<rparr>"

section \<open>Alert generators (routers/alertas.py, routers/juridico.py)\<close>

text \<open>
  The \<open>for\<close> loop of a generator: the body either raises, which ends the request with
  the alerts inserted so far, or returns the new state and whether it inserted an alert;
  the counter \<open>alertas_creadas\<close> is threaded through.
\<close>

fun for_each ::
  "('c \<Rightarrow> 's \<Rightarrow> py_error + 's \<times> bool) \<Rightarrow> 'c list \<Rightarrow> 's \<Rightarrow> nat \<Rightarrow> (py_error + nat) \<times> 's" where
  "for_each body [] s alertas_creadas = (Inr alertas_creadas, s)"
| "for_each body (c # cs) s alertas_creadas =
     (case body c s of
        Inl e \<Rightarrow> (Inl e, s)
      | Inr (s', created) \<Rightarrow>
          for_each body cs s' (if created then alertas_creadas + 1 else alertas_creadas))"

text \<open>The query for an alert that already covers an entity.\<close>

definition alerta_query :: "string \<Rightarrow> string \<Rightarrow> string \<Rightarrow> query" where
  "alerta_query entidad_tipo entidad_id tipo =
     [(''entidad_tipo'', Eq (VStr entidad_tipo)), (''entidad_id'', Eq (VStr entidad_id)),
      (''tipo'', Eq (VStr tipo)), (''estado'', In [VStr ''activa'', VStr ''en_proceso''])]"

text \<open>\<open>f"{nna['nombre']} {nna['apellido']}" if nna else "NNA"\<close>\<close>

definition nna_nombre_de :: "ext \<Rightarrow> doc option \<Rightarrow> py_error + string" where
  "nna_nombre_de x n =
     (case n of
        None \<Rightarrow> Inr ''NNA''
      | Some d \<Rightarrow>
          (if d = [] then Inr ''NNA''
           else
             (case subscript d ''nombre'' of
                Inl e \<Rightarrow> Inl e
              | Inr nombre \<Rightarrow>
                 (case subscript d ''apellido'' of
                    Inl e \<Rightarrow> Inl e
                  | Inr apellido \<Rightarrow> Inr (str_of x nombre @ '' '' @ str_of x apellido)))))"

definition alerta_seguimiento ::
  "ext \<Rightarrow> int \<Rightarrow> TokenData \<Rightarrow> doc \<Rightarrow> database \<Rightarrow> py_error + database \<times> bool" where
  "alerta_seguimiento x now current_user interv db =
     (case subscript interv ''_id'' of Inl e \<Rightarrow> Inl e | Inr iid \<Rightarrow>
       (let existing = find_one (alertas db)
              (alerta_query ''intervencion'' (str_of x iid) ''seguimiento_pendiente'')
        in (if found existing then Inr (db, False)
            else
     (case subscript interv ''nna_id'' of Inl e \<Rightarrow> Inl e | Inr nid \<Rightarrow>
     (case ObjectId x nid of Inl e \<Rightarrow> Inl e | Inr oid \<Rightarrow>
     (case nna_nombre_de x (find_one (nna db) [(''_id'', Eq (VOid oid))]) of
        Inl e \<Rightarrow> Inl e | Inr nna_nombre \<Rightarrow>
     (case subscript interv ''fecha'' of Inl e \<Rightarrow> Inl e | Inr fecha \<Rightarrow>
        Inr (db\<lparr>alertas := insert_one x (alertas db)
               [(''nna_id'', nid),
                (''titulo'', VStr (''Seguimiento pendiente: '' @ nna_nombre)),
                (''mensaje'', VStr (''La intervenci'' @ [CHR 0xF3] @ ''n del '' @
                   str_of x fecha @ '' requiere seguimiento antes del '' @
                   str_of x (dict_get interv ''fecha_proximo_seguimiento'' (VStr ''N/A'')))),
                (''tipo'', VStr ''seguimiento_pendiente''),
                (''prioridad'', VStr (if dict_get interv ''prioridad'' VNone = VStr ''urgente''
                                     then ''alta'' else ''media'')),
                (''fecha_vencimiento'', dict_get interv ''fecha_proximo_seguimiento'' VNone),
                (''estado'', VStr ''activa''),
                (''entidad_tipo'', VStr ''intervencion''),
                (''entidad_id'', VStr (str_of x iid)),
                (''creado_en'', VDatetime now),
                (''creado_por'', val_of_optional_str (user_id current_user))]\<rparr>,
             True))))))))"

definition alerta_taller ::
  "ext \<Rightarrow> int \<Rightarrow> TokenData \<Rightarrow> doc \<Rightarrow> database \<Rightarrow> py_error + database \<times> bool" where
  "alerta_taller x now current_user taller db =
     (case subscript taller ''_id'' of Inl e \<Rightarrow> Inl e | Inr tid \<Rightarrow>
       (let existing = find_one (alertas db)
              (alerta_query ''taller'' (str_of x tid) ''taller_proximo'')
        in (if found existing then Inr (db, False)
            else
     (case subscript taller ''nombre'' of Inl e \<Rightarrow> Inl e | Inr nombre \<Rightarrow>
     (case subscript taller ''fecha'' of Inl e \<Rightarrow> Inl e | Inr fecha \<Rightarrow>
        Inr (db\<lparr>alertas := insert_one x (alertas db)
               [(''titulo'', VStr (''Taller pr'' @ [CHR 0xF3] @ ''ximo: '' @ str_of x nombre)),
                (''mensaje'', VStr (''El taller '' @ [CHR 0x27] @ str_of x nombre @
                   [CHR 0x27] @ '' est'' @ [CHR 0xE1] @ '' programado para el '' @
                   str_of x fecha @ '' a las '' @
                   str_of x (dict_get taller ''hora_inicio'' (VStr ''N/A'')))),
                (''tipo'', VStr ''taller_proximo''),
                (''prioridad'', VStr ''media''),
                (''fecha_vencimiento'', fecha),
                (''estado'', VStr ''activa''),
                (''entidad_tipo'', VStr ''taller''),
                (''entidad_id'', VStr (str_of x tid)),
                (''creado_en'', VDatetime now),
                (''creado_por'', val_of_optional_str (user_id current_user))]\<rparr>,
             True))))))"

text \<open>
  \<open>datetime.strptime(v, "%Y-%m-%d").date()\<close>: TypeError when \<open>v\<close> is not a string,
  ValueError when it does not parse.
\<close>

fun strptime_date :: "ext \<Rightarrow> val \<Rightarrow> py_error + int" where
  "strptime_date x (VStr s) = (case strptime x s of None \<Rightarrow> Inl ValueError | Some d \<Rightarrow> Inr d)"
| "strptime_date x v = Inl TypeError"

definition alerta_medida ::
  "ext \<Rightarrow> int \<Rightarrow> int \<Rightarrow> TokenData \<Rightarrow> doc \<Rightarrow> database \<Rightarrow> py_error + database \<times> bool" where
  "alerta_medida x now today current_user medida db =
     (case subscript medida ''_id'' of Inl e \<Rightarrow> Inl e | Inr mid \<Rightarrow>
       (let existing = find_one (alertas db)
              (alerta_query ''medida_judicial'' (str_of x mid) ''vencimiento_plazo'')
        in (if found existing then Inr (db, False)
            else
     (case subscript medida ''nna_id'' of Inl e \<Rightarrow> Inl e | Inr nid \<Rightarrow>
     (case ObjectId x nid of Inl e \<Rightarrow> Inl e | Inr oid \<Rightarrow>
     (case nna_nombre_de x (find_one (nna db) [(''_id'', Eq (VOid oid))]) of
        Inl e \<Rightarrow> Inl e | Inr nna_nombre \<Rightarrow>
     (case subscript medida ''fecha_termino'' of Inl e \<Rightarrow> Inl e | Inr ft \<Rightarrow>
     (case strptime_date x ft of Inl e \<Rightarrow> Inl e | Inr fecha_termino \<Rightarrow>
       (let dias_restantes = fecha_termino - today;
            prioridad = (if dias_restantes \<le> 7 then ''critica''
                         else if dias_restantes \<le> 15 then ''alta'' else ''media'')
        in Inr (db\<lparr>alertas := insert_one x (alertas db)
               [(''nna_id'', nid),
                (''titulo'', VStr (''Medida pr'' @ [CHR 0xF3] @ ''xima a vencer: '' @ nna_nombre)),
                (''mensaje'', VStr (''La medida judicial vence el '' @ str_of x ft @
                   ''. Quedan '' @ str_of x (VInt dias_restantes) @
                   '' d'' @ [CHR 0xED] @ ''as.'')),
                (''tipo'', VStr ''vencimiento_plazo''),
                (''prioridad'', VStr prioridad),
                (''fecha_vencimiento'', ft),
                (''estado'', VStr ''activa''),
                (''entidad_tipo'', VStr ''medida_judicial''),
                (''entidad_id'', VStr (str_of x mid)),
                (''creado_en'', VDatetime now),
                (''creado_por'', val_of_optional_str (user_id current_user))]\<rparr>,
             True))))))))))"

text \<open>
  The two endpoints. \<open>today\<close> is \<open>date.today()\<close> as a day number, \<open>now\<close> is
  \<open>datetime.now\<close>; the result is \<open>alertas_creadas\<close>.
\<close>

definition intervenciones_por_vencer :: "ext \<Rightarrow> int \<Rightarrow> database \<Rightarrow> doc list" where
  "intervenciones_por_vencer x today db =
     (let fecha_limite = today + 7 in
      find_to_list (intervenciones db)
        [(''fecha_proximo_seguimiento'', Between (isoformat x today) (isoformat x fecha_limite)),
         (''estado'', In [VStr ''pendiente'', VStr ''en_proceso''])] 100)"

definition talleres_proximos :: "ext \<Rightarrow> int \<Rightarrow> database \<Rightarrow> doc list" where
  "talleres_proximos x today db =
     (let fecha_limite = today + 7 in
      find_to_list (talleres db)
        [(''fecha'', Between (isoformat x today) (isoformat x fecha_limite)),
         (''estado'', In [VStr ''programado''])] 100)"

definition medidas_por_vencer :: "ext \<Rightarrow> int \<Rightarrow> database \<Rightarrow> doc list" where
  "medidas_por_vencer x today db =
     (let fecha_limite = today + 30 in
      find_to_list (medidas_judiciales db)
        [(''fecha_termino'', Between (isoformat x today) (isoformat x fecha_limite)),
         (''estado'', In [VStr ''vigente'', VStr ''dictada''])] 100)"

definition generar_alertas_vencimientos ::
  "ext \<Rightarrow> int \<Rightarrow> int \<Rightarrow> TokenData \<Rightarrow> database \<Rightarrow> (py_error + nat) \<times> database" where
  "generar_alertas_vencimientos x now today current_user db =
     (case for_each (alerta_seguimiento x now current_user)
             (intervenciones_por_vencer x today db) db 0 of
        (Inl e, db1) \<Rightarrow> (Inl e, db1)
      | (Inr alertas_creadas, db1) \<Rightarrow>
          for_each (alerta_taller x now current_user)
            (talleres_proximos x today db1) db1 alertas_creadas)"

definition generar_alertas_vencimiento ::
  "ext \<Rightarrow> int \<Rightarrow> int \<Rightarrow> TokenData \<Rightarrow> database \<Rightarrow> (py_error + nat) \<times> database" where
  "generar_alertas_vencimiento x now today current_user db =
     for_each (alerta_medida x now today current_user) (medidas_por_vencer x today db) db 0"

text \<open>A run of a generator only appends to the alerts collection.\<close>

definition more_alerts :: "database \<Rightarrow> database \<Rightarrow> bool" where
  "more_alerts db db' = (\<exists>new. db' = db\<lparr>alertas := alertas db @ new\<rparr>)"

text \<open>The alerts a run appends all satisfy a given property.\<close>

definition added_with :: "(doc \<Rightarrow> bool) \<Rightarrow> database \<Rightarrow> database \<Rightarrow> bool" where
  "added_with P db db' = (\<exists>new. alertas db' = alertas db @ new \<and> list_all P new)"

text \<open>
  The priority of an alert on a judicial measure, as the specification words it, from
  the days between today and the due date the alert stores: at most 7 days is critica,
  8 to 15 days is alta, more than 15 days is media.
\<close>

definition prioridad_segun_plazo :: "ext \<Rightarrow> int \<Rightarrow> doc \<Rightarrow> bool" where
  "prioridad_segun_plazo x today a =
     (case map_of a ''fecha_vencimiento'' of
        Some (VStr s) \<Rightarrow>
          (case strptime x s of
             None \<Rightarrow> False
           | Some d \<Rightarrow>
               (d - today \<le> 7 \<longrightarrow> map_of a ''prioridad'' = Some (VStr ''critica'')) \<and>
               (8 \<le> d - today \<and> d - today \<le> 15 \<longrightarrow>
                  map_of a ''prioridad'' = Some (VStr ''alta'')) \<and>
               (15 < d - today \<longrightarrow> map_of a ''prioridad'' = Some (VStr ''media'')))
      | _ \<Rightarrow> False)"

text \<open>
  A small database: one resident, a follow-up due on 2025-01-05, a workshop on
  2025-01-04, and three judicial measures ending 5, 12 and 25 days after 2025-01-01,
  the second of them linked to a resident that is no longer stored; an intervention
  without \<open>nna_id\<close>, and one linked to a resident that is no longer stored.
\<close>

definition nna_luz :: doc where
  "nna_luz = [(''_id'', VOid ''65b000000000000000000001''), (''nombre'', VStr ''Luz''),
              (''apellido'', VStr ''Rojas'')]"

definition interv_urgente :: doc where
  "interv_urgente =
     [(''_id'', VOid ''65c000000000000000000001''), (''nna_id'', VStr ''65b000000000000000000001''),
      (''fecha'', VStr ''2025-01-02''), (''estado'', VStr ''pendiente''),
      (''prioridad'', VStr ''urgente''), (''fecha_proximo_seguimiento'', VStr ''2025-01-05'')]"

definition interv_sin_nna_id :: doc where
  "interv_sin_nna_id =
     [(''_id'', VOid ''65c000000000000000000002''),
      (''fecha'', VStr ''2025-01-02''), (''estado'', VStr ''pendiente''),
      (''prioridad'', VStr ''media''), (''fecha_proximo_seguimiento'', VStr ''2025-01-03'')]"


definition taller_arte :: doc where
  "taller_arte =
     [(''_id'', VOid ''65d000000000000000000001''), (''nombre'', VStr ''Arte''),
      (''fecha'', VStr ''2025-01-04''), (''estado'', VStr ''programado'')]"

definition medida_5_dias :: doc where
  "medida_5_dias =
     [(''_id'', VOid ''65e000000000000000000001''), (''nna_id'', VStr ''65b000000000000000000001''),
      (''fecha_termino'', VStr ''2025-01-06''), (''estado'', VStr ''vigente'')]"

definition medida_12_dias :: doc where
  "medida_12_dias =
     [(''_id'', VOid ''65e000000000000000000002''), (''nna_id'', VStr ''65b000000000000000000009''),
      (''fecha_termino'', VStr ''2025-01-13''), (''estado'', VStr ''dictada'')]"

definition medida_25_dias :: doc where
  "medida_25_dias =
     [(''_id'', VOid ''65e000000000000000000003''), (''nna_id'', VStr ''65b000000000000000000001''),
      (''fecha_termino'', VStr ''2025-01-26''), (''estado'', VStr ''vigente'')]"

definition db_residencia :: database where
  "db_residencia =
     \<lparr>usuarios = [], nna = [nna_luz], intervenciones = [interv_urgente],
      talleres = [taller_arte],
      medidas_judiciales = [medida_5_dias, medida_12_dias, medida_25_dias], alertas = []\<rparr>"


definition db_segundo_malformado :: database where
  "db_segundo_malformado = db_residencia\<lparr>intervenciones := [interv_urgente, interv_sin_nna_id]\<rparr>"

definition coordinadora :: TokenData where
  "coordinadora =
     \<lparr>user_id = Some ''65a000000000000000000003'', email = Some ''coord@residencia.cl'',
      rol = Some ''coordinador''\<rparr>"

section \<open>Role hierarchy: properties\<close>

lemma role_level_of_rank:
  "r \<in> set role_order \<Longrightarrow> dict_get ROLE_HIERARCHY r 0 = int (role_rank r) + 1"
  by (auto simp: role_order_def dict_get_def ROLE_HIERARCHY_def role_rank_def)

text \<open>
  C1. For roles r1 and r2 of the ordered set viewer < tecnico < coordinador < admin, a
  principal with role r2 passes a check requiring r1 whenever r1 is at most r2 in the
  order, and a principal with role r1 fails a check requiring r2 whenever r1 is strictly
  below r2.
\<close>

theorem has_permission_monotone:
  assumes "r1 \<in> set role_order" and "r2 \<in> set role_order"
  shows "(role_rank r1 \<le> role_rank r2 \<longrightarrow> has_permission r2 r1) \<and>
         (role_rank r1 < role_rank r2 \<longrightarrow> \<not> has_permission r1 r2)"
  using assms by (simp add: has_permission_def role_level_of_rank)

theorem has_permission_monotone_witness:
  "''tecnico'' \<in> set role_order \<and> ''admin'' \<in> set role_order \<and>
   role_rank ''tecnico'' < role_rank ''admin'' \<and>
   has_permission ''admin'' ''tecnico'' \<and> \<not> has_permission ''tecnico'' ''admin''"
proof -
  have m1: "''tecnico'' \<in> set role_order" and m2: "''admin'' \<in> set role_order"
    by (simp_all add: role_order_def)
  have lt: "role_rank ''tecnico'' < role_rank ''admin''"
    by (simp add: role_rank_def role_order_def)
  from has_permission_monotone [OF m1 m2] lt m1 m2 show ?thesis by simp
qed

text \<open>
  C2, as the code has it. A role outside the four known ones has level 0, and so has an
  unknown required role: an unknown user role is denied every check that requires a
  known role, and passes exactly the checks whose required role is unknown as well.
\<close>

theorem has_permission_unknown_role:
  "\<not> known_role user_role \<Longrightarrow>
     has_permission user_role required_role = (\<not> known_role required_role)"
  by (auto simp: has_permission_def known_role_def dict_get_def ROLE_HIERARCHY_def)

theorem has_permission_unknown_role_witness:
  "\<not> known_role ''guest'' \<and> known_role ''viewer'' \<and> \<not> has_permission ''guest'' ''viewer''"
  using has_permission_unknown_role [of "''guest''" "''viewer''"]
  by (simp add: known_role_def ROLE_HIERARCHY_def)

theorem has_permission_unknown_role_counterexample:
  "\<not> known_role ''guest'' \<and> has_permission ''guest'' ''superuser''"
  by (simp add: known_role_def has_permission_def dict_get_def ROLE_HIERARCHY_def)

section \<open>RUT validator: properties\<close>





























text \<open>
  C8. The validator is meant to return a boolean on every string, the conversion of the
  body characters being guarded by \<open>isdigit\<close>. On a body holding a superscript digit
  the guard passes and \<open>int\<close> raises: the call on the two characters U+00B2 and 5
  ends in ValueError.
\<close>

theorem validate_rut_chile_raises:
  "validate_rut_chile [CHR 0xB2, CHR ''5''] = Inl ValueError"
  by code_simp
section \<open>Authentication: properties\<close>

lemma find_one_matches: "find_one coll q = Some d \<Longrightarrow> matches q d \<and> d \<in> set coll"
  by (auto simp: find_one_def find_Some_iff in_set_conv_nth)


text \<open>
  C3. For every decoded payload whose type claim is not "access" (a refresh token, or no
  type claim at all), \<open>get_current_user\<close> raises the 401 error for a wrong token type,
  so it returns no principal, whatever the other claims are.
\<close>

theorem get_current_user_rejects_other_types:
  assumes "decode_token x token = Some payload"
      and "map_of payload ''type'' \<noteq> Some (VStr ''access'')"
  shows "get_current_user x token = Inl tipo_de_token_invalido"
proof -
  from assms(2) have "\<not> verify_token_type payload ''access''"
    by (auto simp: verify_token_type_def dict_get_def split: option.splits)
  with assms(1) show ?thesis by (simp add: get_current_user_def)
qed

theorem get_current_user_rejects_other_types_witness:
  "decode_token fixture ''refresh-token'' \<noteq> None \<and>
   get_current_user fixture ''refresh-token'' = Inl tipo_de_token_invalido"
proof -
  let ?p = "[(''sub'', VStr ''u1''), (''email'', VStr ''ana@residencia.cl''),
             (''rol'', VStr ''tecnico''), (''type'', VStr ''refresh'')]"
  have d: "decode_token fixture ''refresh-token'' = Some ?p"
    by (simp add: decode_token_def fixture_def fixture_jwt_decode_def)
  have t: "map_of ?p ''type'' \<noteq> Some (VStr ''access'')" by simp
  from get_current_user_rejects_other_types [OF d t] d show ?thesis by simp
qed




section \<open>User accounts: properties\<close>

lemma map_of_dict_set:
  "map_of (dict_set d k v) k' = (if k' = k then Some v else map_of d k')"
  by (induction d k v rule: dict_set.induct) auto

lemma keys_dict_set: "fst ` set (dict_set d k v) = insert k (fst ` set d)"
  by (induction d k v rule: dict_set.induct) auto

lemma map_of_dict_update:
  "k \<notin> fst ` set s \<Longrightarrow> map_of (dict_update d s) k = map_of d k"
  by (induction d s rule: dict_update.induct) (auto simp: map_of_dict_set)

lemma update_one_keeps:
  "d \<in> set coll \<Longrightarrow> \<exists>d' \<in> set (update_one coll q s). d' = d \<or> d' = dict_update d s"
  by (induction coll q s rule: update_one.induct) auto

lemma delete_one_keeps:
  "d \<in> set coll \<Longrightarrow> find_one coll q \<noteq> Some d \<Longrightarrow> d \<in> set (delete_one coll q)"
  by (induction coll q rule: delete_one.induct) (auto simp: find_one_def split: if_splits)

lemma still_there_same: "d \<in> set coll \<Longrightarrow> root_admin d \<Longrightarrow> still_there d coll"
  by (auto simp: still_there_def)

lemma still_there_update:
  assumes "d \<in> set coll" and "root_admin d"
      and "''email'' \<notin> fst ` set s" and "''_id'' \<notin> fst ` set s"
  shows "still_there d (update_one coll q s)"
proof -
  from update_one_keeps [OF assms(1), of q s]
  obtain d' where d': "d' \<in> set (update_one coll q s)" "d' = d \<or> d' = dict_update d s"
    by blast
  from d'(2) assms(2-4) have "root_admin d' \<and> map_of d' ''_id'' = map_of d ''_id''"
    by (auto simp: root_admin_def map_of_dict_update)
  with d'(1) show ?thesis by (auto simp: still_there_def)
qed

lemma still_there_insert:
  "d \<in> set coll \<Longrightarrow> root_admin d \<Longrightarrow> still_there d (insert_one x coll n)"
  by (auto simp: still_there_def insert_one_def)

lemma login_keeps_root:
  assumes "d \<in> set (usuarios db)" and "root_admin d"
  shows "still_there d (usuarios (snd (login x now c db)))"
  using assms
  by (auto simp: login_def Let_def still_there_same still_there_update
           split: option.splits sum.splits bool.splits)

lemma change_password_keeps_root:
  assumes "d \<in> set (usuarios db)" and "root_admin d"
  shows "still_there d (usuarios (snd (change_password x now cur new u db)))"
  using assms
  by (auto simp: change_password_def Let_def still_there_same still_there_update
           split: option.splits sum.splits bool.splits)

lemma create_user_keeps_root:
  assumes "d \<in> set (usuarios db)" and "root_admin d"
  shows "still_there d (usuarios (snd (create_user x now ud u db)))"
  using assms
  by (auto simp: create_user_def Let_def still_there_same still_there_insert)

lemma reset_password_keeps_root:
  assumes "d \<in> set (usuarios db)" and "root_admin d"
  shows "still_there d (usuarios (snd (reset_password x now i p u db)))"
  using assms
  by (auto simp: reset_password_def Let_def still_there_same still_there_update
           split: option.splits sum.splits)

lemma init_admin_user_keeps_root:
  assumes "d \<in> set (usuarios db)" and "root_admin d"
  shows "still_there d (usuarios (init_admin_user x now db))"
  using assms
  by (auto simp: init_admin_user_def still_there_same still_there_insert)

lemma update_user_data_keys:
  "''email'' \<notin> fst ` set (update_user_data x now ud) \<and>
   ''_id'' \<notin> fst ` set (update_user_data x now ud)"
  by (simp add: update_user_data_def Let_def keys_dict_set split: option.splits)

lemma update_user_keeps_root:
  assumes "d \<in> set (usuarios db)" and "root_admin d"
  shows "still_there d (usuarios (snd (update_user x now i ud u db)))"
  using assms update_user_data_keys [of x now ud]
  by (auto simp: update_user_def Let_def still_there_same still_there_update
           split: option.splits sum.splits)

lemma delete_user_keeps_root:
  assumes "d \<in> set (usuarios db)" and "root_admin d"
  shows "still_there d (usuarios (snd (delete_user x i u db)))"
proof -
  have "still_there d (delete_one (usuarios db) q)"
    if "find_one (usuarios db) q = Some existing" and "map_of existing ''email'' = Some em"
       and "em \<noteq> VStr ''admin@residencia.cl''" for q existing em
  proof -
    from that(2,3) assms(2) have "existing \<noteq> d" by (auto simp: root_admin_def)
    with that(1) have "find_one (usuarios db) q \<noteq> Some d" by simp
    from delete_one_keeps [OF assms(1) this] assms(2) show ?thesis
      by (rule still_there_same)
  qed
  then show ?thesis
    using assms
    by (auto simp: delete_user_def Let_def subscript_def still_there_same
             split: option.splits sum.splits)
qed

lemma delete_user_on_root:
  assumes "ObjectId_is_valid x uid" and "ObjectId x (VStr uid) = Inr oid"
      and "find_one (usuarios db) [(''_id'', Eq (VOid oid))] = Some target"
      and "root_admin target"
  shows "delete_user x uid cu db = (Inl no_eliminar_admin_principal, db)"
proof -
  from assms(4) have "target \<noteq> []" by (auto simp: root_admin_def)
  with assms show ?thesis
    by (simp add: delete_user_def subscript_def root_admin_def)
qed

text \<open>
  C9. The root administrator account is never removed. Whoever calls \<open>delete_user\<close>,
  when the account the identifier designates has the root administrator's email the call
  raises the 403 error and leaves the database as it was; and after any operation that
  writes to the accounts collection, an account with that email that was stored before
  is still stored, under the same \<open>_id\<close> and email.
\<close>

theorem root_admin_never_deleted:
  "(ObjectId_is_valid x uid \<and> ObjectId x (VStr uid) = Inr oid \<and>
    find_one (usuarios db) [(''_id'', Eq (VOid oid))] = Some target \<and> root_admin target
      \<longrightarrow> delete_user x uid cu db = (Inl no_eliminar_admin_principal, db)) \<and>
   (d \<in> set (usuarios db) \<and> root_admin d
      \<longrightarrow> (\<exists>d' \<in> set (usuarios (run_operation x now op db)).
             root_admin d' \<and> map_of d' ''_id'' = map_of d ''_id''))"
proof -
  have "still_there d (usuarios (run_operation x now op db))"
    if "d \<in> set (usuarios db)" and "root_admin d"
    using that
    by (cases op)
       (simp_all add: login_keeps_root change_password_keeps_root create_user_keeps_root
          update_user_keeps_root delete_user_keeps_root reset_password_keeps_root
          init_admin_user_keeps_root)
  then show ?thesis
    using delete_user_on_root [of x uid oid db target cu]
    by (auto simp: still_there_def)
qed

theorem root_admin_never_deleted_witness:
  "root_admin cuenta_admin \<and> cuenta_admin \<in> set (usuarios db_admin) \<and>
   delete_user fixture ''65a000000000000000000001'' otro_admin db_admin =
     (Inl no_eliminar_admin_principal, db_admin) \<and>
   (\<exists>d' \<in> set (usuarios (run_operation fixture 0
                 (DeleteUser ''65a000000000000000000001'' otro_admin) db_admin)).
      root_admin d' \<and> map_of d' ''_id'' = map_of cuenta_admin ''_id'')"
proof -
  have v: "ObjectId_is_valid fixture ''65a000000000000000000001''"
    by (simp add: ObjectId_is_valid_def fixture_def hex_digit_def)
  have o: "ObjectId fixture (VStr ''65a000000000000000000001'') =
             Inr ''65a000000000000000000001''"
    by (simp add: fixture_def hex_digit_def)
  have f: "find_one (usuarios db_admin) [(''_id'', Eq (VOid ''65a000000000000000000001''))] =
             Some cuenta_admin"
    by (simp add: find_one_def matches_def db_admin_def cuenta_admin_def)
  have r: "root_admin cuenta_admin"
    by (simp add: root_admin_def cuenta_admin_def)
  have m: "cuenta_admin \<in> set (usuarios db_admin)"
    by (simp add: db_admin_def)
  from root_admin_never_deleted [of fixture "''65a000000000000000000001''"
         "''65a000000000000000000001''" db_admin cuenta_admin otro_admin cuenta_admin 0
         "DeleteUser ''65a000000000000000000001'' otro_admin"] v o f r m
  show ?thesis by blast
qed

section \<open>Alert generators: properties\<close>

lemma for_each_settled:
  "\<forall>c \<in> set cs. body c s = Inr (s, False) \<Longrightarrow> for_each body cs s n = (Inr n, s)"
  by (induction cs) simp_all

lemma for_each_second_run:
  fixes body body' :: "'c \<Rightarrow> 's \<Rightarrow> py_error + 's \<times> bool" and R :: "'s \<Rightarrow> 's \<Rightarrow> bool"
  assumes refl: "\<And>s. R s s"
      and trans: "\<And>a b c. R a b \<Longrightarrow> R b c \<Longrightarrow> R a c"
      and step: "\<And>c s s' b. body c s = Inr (s', b) \<Longrightarrow> R s s' \<and> body' c s' = Inr (s', False)"
      and mono: "\<And>c s s'. body' c s = Inr (s, False) \<Longrightarrow> R s s' \<Longrightarrow> body' c s' = Inr (s', False)"
      and fail: "\<And>c s e. body c s = Inl e \<Longrightarrow> body' c s = Inl e"
  shows "for_each body cs s n = (r, s') \<Longrightarrow>
         R s s' \<and>
         (\<forall>k. r = Inr k \<longrightarrow> (\<forall>c \<in> set cs. body' c s' = Inr (s', False))) \<and>
         for_each body' cs s' m = (case r of Inl e \<Rightarrow> Inl e | Inr k \<Rightarrow> Inr m, s')"
proof (induction cs arbitrary: s n)
  case Nil
  then show ?case by (auto simp: refl)
next
  case (Cons c cs)
  show ?case
  proof (cases "body c s")
    case (Inl e)
    with Cons.prems have "r = Inl e" "s' = s" by simp_all
    with fail [OF Inl] show ?thesis by (simp add: refl)
  next
    case (Inr p)
    obtain s1 b where p: "p = (s1, b)" by (cases p)
    with Inr Cons.prems
    have run: "for_each body cs s1 (if b then n + 1 else n) = (r, s')" by simp
    from Inr p have b1: "body c s = Inr (s1, b)" by simp
    note ih = Cons.IH [OF run]
    from step [OF b1] have r1: "R s s1" and st: "body' c s1 = Inr (s1, False)" by simp_all
    from ih have r2: "R s1 s'" by simp
    from mono [OF st r2] have c': "body' c s' = Inr (s', False)" .
    from ih c' trans [OF r1 r2] show ?thesis by simp
  qed
qed

lemma more_alerts_refl: "more_alerts db db"
  unfolding more_alerts_def by (rule exI [of _ "[]"]) simp

lemma more_alerts_trans: "more_alerts a b \<Longrightarrow> more_alerts b c \<Longrightarrow> more_alerts a c"
  unfolding more_alerts_def by auto

lemma more_alerts_insert: "more_alerts db (db\<lparr>alertas := insert_one x (alertas db) a\<rparr>)"
  unfolding more_alerts_def insert_one_def by blast

lemma alerta_query_not_empty: "\<not> matches (alerta_query et ei t) []"
  by (simp add: matches_def alerta_query_def)

lemma found_alerta_query:
  "found (find_one coll (alerta_query et ei t)) = (find_one coll (alerta_query et ei t) \<noteq> None)"
proof (cases "find_one coll (alerta_query et ei t)")
  case None
  then show ?thesis by simp
next
  case (Some d)
  from find_one_matches [OF Some] alerta_query_not_empty [of et ei t] have "d \<noteq> []" by auto
  with Some show ?thesis by simp
qed

lemma find_one_append:
  "find_one (coll @ new) q = (case find_one coll q of None \<Rightarrow> find_one new q | Some d \<Rightarrow> Some d)"
  by (induction coll) (simp_all add: find_one_def)

lemma found_more_alerts:
  "more_alerts db db' \<Longrightarrow> found (find_one (alertas db) (alerta_query et ei t)) \<Longrightarrow>
   found (find_one (alertas db') (alerta_query et ei t))"
  by (auto simp: more_alerts_def found_alerta_query find_one_append split: option.splits)

lemma find_one_single: "find_one [d] q = (if matches q d then Some d else None)"
  by (simp add: find_one_def)

lemma found_after_insert:
  assumes "map_of a ''entidad_tipo'' = Some (VStr et)" and "map_of a ''entidad_id'' = Some (VStr ei)"
      and "map_of a ''tipo'' = Some (VStr t)" and "map_of a ''estado'' = Some (VStr ''activa'')"
  shows "found (find_one (insert_one x coll a) (alerta_query et ei t))"
proof -
  have "matches (alerta_query et ei t) (a @ [(''_id'', VOid (new_oid x coll))])"
    using assms by (simp add: matches_def alerta_query_def)
  then have "find_one (insert_one x coll a) (alerta_query et ei t) \<noteq> None"
    by (simp add: find_one_append insert_one_def find_one_single split: option.splits)
  then show ?thesis by (simp add: found_alerta_query)
qed

lemma alerta_seguimiento_step:
  assumes "alerta_seguimiento x now cu c db = Inr (db', b)"
  shows "more_alerts db db' \<and> alerta_seguimiento x now' cu' c db' = Inr (db', False)"
  using assms
  by (auto simp: alerta_seguimiento_def Let_def more_alerts_refl more_alerts_insert
                 found_after_insert
           split: sum.splits if_splits)

lemma alerta_seguimiento_mono:
  assumes "alerta_seguimiento x now cu c db = Inr (db, False)" and "more_alerts db db'"
  shows "alerta_seguimiento x now cu c db' = Inr (db', False)"
  using assms found_more_alerts [OF assms(2)]
  by (auto simp: alerta_seguimiento_def Let_def split: sum.splits if_splits)

lemma alerta_seguimiento_fail:
  assumes "alerta_seguimiento x now cu c db = Inl e"
  shows "alerta_seguimiento x now' cu' c db = Inl e"
  using assms
  by (auto simp: alerta_seguimiento_def Let_def split: sum.splits if_splits)

lemma alerta_taller_step:
  assumes "alerta_taller x now cu c db = Inr (db', b)"
  shows "more_alerts db db' \<and> alerta_taller x now' cu' c db' = Inr (db', False)"
  using assms
  by (auto simp: alerta_taller_def Let_def more_alerts_refl more_alerts_insert
                 found_after_insert
           split: sum.splits if_splits)

lemma alerta_taller_mono:
  assumes "alerta_taller x now cu c db = Inr (db, False)" and "more_alerts db db'"
  shows "alerta_taller x now cu c db' = Inr (db', False)"
  using assms found_more_alerts [OF assms(2)]
  by (auto simp: alerta_taller_def Let_def split: sum.splits if_splits)

lemma alerta_taller_fail:
  assumes "alerta_taller x now cu c db = Inl e"
  shows "alerta_taller x now' cu' c db = Inl e"
  using assms
  by (auto simp: alerta_taller_def Let_def split: sum.splits if_splits)

lemma alerta_medida_step:
  assumes "alerta_medida x now today cu c db = Inr (db', b)"
  shows "more_alerts db db' \<and> alerta_medida x now' today cu' c db' = Inr (db', False)"
  using assms
  by (auto simp: alerta_medida_def Let_def more_alerts_refl more_alerts_insert
                 found_after_insert
           split: sum.splits if_splits)

lemma alerta_medida_mono:
  assumes "alerta_medida x now today cu c db = Inr (db, False)" and "more_alerts db db'"
  shows "alerta_medida x now today cu c db' = Inr (db', False)"
  using assms found_more_alerts [OF assms(2)]
  by (auto simp: alerta_medida_def Let_def split: sum.splits if_splits)

lemma alerta_medida_fail:
  assumes "alerta_medida x now today cu c db = Inl e"
  shows "alerta_medida x now' today cu' c db = Inl e"
  using assms
  by (auto simp: alerta_medida_def Let_def split: sum.splits if_splits)

lemma more_alerts_sources:
  assumes "more_alerts db db'"
  shows "intervenciones_por_vencer x today db' = intervenciones_por_vencer x today db"
    and "talleres_proximos x today db' = talleres_proximos x today db"
    and "medidas_por_vencer x today db' = medidas_por_vencer x today db"
  using assms
  by (auto simp: more_alerts_def intervenciones_por_vencer_def talleres_proximos_def
                 medidas_por_vencer_def)

lemma seguimiento_second_run:
  assumes "for_each (alerta_seguimiento x now cu) cs db n = (r, db')"
  shows "more_alerts db db' \<and>
         (\<forall>k. r = Inr k \<longrightarrow>
            (\<forall>c \<in> set cs. alerta_seguimiento x now' cu' c db' = Inr (db', False))) \<and>
         for_each (alerta_seguimiento x now' cu') cs db' m =
           (case r of Inl e \<Rightarrow> Inl e | Inr k \<Rightarrow> Inr m, db')"
  by (rule for_each_second_run [where R = more_alerts, OF more_alerts_refl more_alerts_trans
        alerta_seguimiento_step alerta_seguimiento_mono alerta_seguimiento_fail assms])

lemma taller_second_run:
  assumes "for_each (alerta_taller x now cu) cs db n = (r, db')"
  shows "more_alerts db db' \<and>
         (\<forall>k. r = Inr k \<longrightarrow>
            (\<forall>c \<in> set cs. alerta_taller x now' cu' c db' = Inr (db', False))) \<and>
         for_each (alerta_taller x now' cu') cs db' m =
           (case r of Inl e \<Rightarrow> Inl e | Inr k \<Rightarrow> Inr m, db')"
  by (rule for_each_second_run [where R = more_alerts, OF more_alerts_refl more_alerts_trans
        alerta_taller_step alerta_taller_mono alerta_taller_fail assms])

lemma medida_second_run:
  assumes "for_each (alerta_medida x now today cu) cs db n = (r, db')"
  shows "more_alerts db db' \<and>
         (\<forall>k. r = Inr k \<longrightarrow>
            (\<forall>c \<in> set cs. alerta_medida x now' today cu' c db' = Inr (db', False))) \<and>
         for_each (alerta_medida x now' today cu') cs db' m =
           (case r of Inl e \<Rightarrow> Inl e | Inr k \<Rightarrow> Inr m, db')"
  by (rule for_each_second_run [where R = more_alerts, OF more_alerts_refl more_alerts_trans
        alerta_medida_step alerta_medida_mono alerta_medida_fail assms])

lemma generar_alertas_vencimiento_twice:
  assumes "generar_alertas_vencimiento x now today cu db = (r, db')"
  shows "generar_alertas_vencimiento x now' today cu' db' =
           (case r of Inl e \<Rightarrow> Inl e | Inr k \<Rightarrow> Inr 0, db')"
proof -
  from assms have run: "for_each (alerta_medida x now today cu) (medidas_por_vencer x today db) db 0 = (r, db')"
    by (simp add: generar_alertas_vencimiento_def)
  note s = medida_second_run [OF run, of now' cu' 0]
  from s have "more_alerts db db'" by simp
  from more_alerts_sources(3) [OF this] s show ?thesis
    by (simp add: generar_alertas_vencimiento_def)
qed

lemma generar_alertas_vencimientos_twice:
  assumes "generar_alertas_vencimientos x now today cu db = (r, db')"
  shows "generar_alertas_vencimientos x now' today cu' db' =
           (case r of Inl e \<Rightarrow> Inl e | Inr k \<Rightarrow> Inr 0, db')"
proof -
  obtain r1 db1 where run1:
    "for_each (alerta_seguimiento x now cu) (intervenciones_por_vencer x today db) db 0 = (r1, db1)"
    by (cases "for_each (alerta_seguimiento x now cu) (intervenciones_por_vencer x today db) db 0")
  note s1 = seguimiento_second_run [OF run1, of now' cu' 0]
  from s1 have m1: "more_alerts db db1" by simp
  show ?thesis
  proof (cases r1)
    case (Inl e)
    with run1 assms have "r = Inl e" "db' = db1"
      by (simp_all add: generar_alertas_vencimientos_def)
    with s1 Inl more_alerts_sources(1) [OF m1] show ?thesis
      by (simp add: generar_alertas_vencimientos_def)
  next
    case (Inr n1)
    with run1 assms have run2:
      "for_each (alerta_taller x now cu) (talleres_proximos x today db1) db1 n1 = (r, db')"
      by (simp add: generar_alertas_vencimientos_def)
    note s2 = taller_second_run [OF run2, of now' cu' 0]
    from s2 have m2: "more_alerts db1 db'" by simp
    from s1 Inr have "\<forall>c \<in> set (intervenciones_por_vencer x today db).
        alerta_seguimiento x now' cu' c db1 = Inr (db1, False)" by simp
    with alerta_seguimiento_mono [OF _ m2]
    have "\<forall>c \<in> set (intervenciones_por_vencer x today db).
        alerta_seguimiento x now' cu' c db' = Inr (db', False)" by blast
    then have "for_each (alerta_seguimiento x now' cu') (intervenciones_por_vencer x today db) db' 0 =
            (Inr 0, db')" by (rule for_each_settled)
    moreover have "intervenciones_por_vencer x today db' = intervenciones_por_vencer x today db"
      using more_alerts_sources(1) [OF more_alerts_trans [OF m1 m2]] .
    moreover have "talleres_proximos x today db' = talleres_proximos x today db1"
      using more_alerts_sources(2) [OF m2] .
    ultimately show ?thesis using s2
      by (simp add: generar_alertas_vencimientos_def)
  qed
qed

lemma for_each_rel:
  fixes body :: "'c \<Rightarrow> 's \<Rightarrow> py_error + 's \<times> bool" and R :: "'s \<Rightarrow> 's \<Rightarrow> bool"
  assumes refl: "\<And>s. R s s"
      and trans: "\<And>a b c. R a b \<Longrightarrow> R b c \<Longrightarrow> R a c"
      and step: "\<And>c s s' b. body c s = Inr (s', b) \<Longrightarrow> R s s'"
  shows "for_each body cs s n = (r, s') \<Longrightarrow> R s s'"
proof (induction cs arbitrary: s n)
  case Nil
  then show ?case by (auto simp: refl)
next
  case (Cons c cs)
  show ?case
  proof (cases "body c s")
    case (Inl e)
    with Cons.prems show ?thesis by (simp add: refl)
  next
    case (Inr p)
    obtain s1 b where p: "p = (s1, b)" by (cases p)
    with Inr Cons.prems
    have run: "for_each body cs s1 (if b then n + 1 else n) = (r, s')" by simp
    from Inr p have "R s s1" by (auto intro: step)
    with Cons.IH [OF run] show ?thesis by (rule trans [rotated])
  qed
qed

lemma added_with_refl: "added_with P db db"
  by (simp add: added_with_def)

lemma added_with_trans: "added_with P a b \<Longrightarrow> added_with P b c \<Longrightarrow> added_with P a c"
  by (auto simp: added_with_def)

lemma alerta_medida_inserted:
  assumes "alerta_medida x now today cu c db = Inr (db', b)"
  shows "(\<not> b \<and> db' = db) \<or>
         (\<exists>a s d. b \<and> alertas db' = alertas db @ [a] \<and>
            map_of c ''fecha_termino'' = Some (VStr s) \<and> strptime x s = Some d \<and>
            map_of a ''fecha_vencimiento'' = Some (VStr s) \<and>
            map_of a ''prioridad'' = Some (VStr (if d - today \<le> 7 then ''critica''
                                  else if d - today \<le> 15 then ''alta'' else ''media'')))"
proof (cases b)
  case False
  with assms show ?thesis
    by (auto simp: alerta_medida_def Let_def split: sum.splits if_splits)
next
  case True
  with assms obtain ft d where
    ft: "map_of c ''fecha_termino'' = Some ft" and d: "strptime_date x ft = Inr d"
    by (auto simp: alerta_medida_def Let_def subscript_def split: sum.splits if_splits option.splits)
  from d obtain s where s: "ft = VStr s" "strptime x s = Some d"
    by (cases ft) (auto split: option.splits)
  from assms True ft d s show ?thesis
    by (auto simp: alerta_medida_def Let_def subscript_def insert_one_def
             split: sum.splits if_splits option.splits)
qed

lemma alerta_medida_added:
  assumes "alerta_medida x now today cu c db = Inr (db', b)"
  shows "added_with (prioridad_segun_plazo x today) db db'"
  using alerta_medida_inserted [OF assms]
  by (auto simp: added_with_def prioridad_segun_plazo_def)

lemma alerta_seguimiento_inserted:
  assumes "alerta_seguimiento x now cu c db = Inr (db', True)"
  shows "\<exists>a. alertas db' = alertas db @ [a] \<and>
           map_of a ''prioridad'' =
             Some (VStr (if map_of c ''prioridad'' = Some (VStr ''urgente'')
                         then ''alta'' else ''media''))"
  using assms
  by (auto simp: alerta_seguimiento_def Let_def insert_one_def dict_get_def
           split: sum.splits if_splits option.splits)

text \<open>
  C4, as the code has it. The alert generators are idempotent over an unchanged data
  set. Whatever the database, a second run of \<open>generar_alertas_vencimientos\<close> (or of
  the generator for judicial measures) on the state the first run left, on the same day,
  at any instant and by any caller, inserts no alert: it leaves the database as it found
  it. When the first run returned a count, the second returns
  \<open>alertas_creadas = 0\<close>; when the first run raised, the second raises the same
  error.
\<close>

theorem generadores_idempotentes:
  "(generar_alertas_vencimientos x now today cu db = (r, db') \<longrightarrow>
      generar_alertas_vencimientos x now' today cu' db' =
        (case r of Inl e \<Rightarrow> Inl e | Inr k \<Rightarrow> Inr 0, db')) \<and>
   (generar_alertas_vencimiento x now today cu db = (r2, db2) \<longrightarrow>
      generar_alertas_vencimiento x now' today cu' db2 =
        (case r2 of Inl e \<Rightarrow> Inl e | Inr k \<Rightarrow> Inr 0, db2))"
  using generar_alertas_vencimientos_twice [of x now today cu db r db' now' cu']
        generar_alertas_vencimiento_twice [of x now today cu db r2 db2 now' cu']
  by blast

theorem generadores_idempotentes_witness:
  "fst (generar_alertas_vencimientos fixture 0 1 coordinadora db_residencia) = Inr 2 \<and>
   generar_alertas_vencimientos fixture 60 1 otro_admin
     (snd (generar_alertas_vencimientos fixture 0 1 coordinadora db_residencia)) =
     (Inr 0, snd (generar_alertas_vencimientos fixture 0 1 coordinadora db_residencia)) \<and>
   fst (generar_alertas_vencimiento fixture 0 1 coordinadora db_residencia) = Inr 3 \<and>
   generar_alertas_vencimiento fixture 60 1 otro_admin
     (snd (generar_alertas_vencimiento fixture 0 1 coordinadora db_residencia)) =
     (Inr 0, snd (generar_alertas_vencimiento fixture 0 1 coordinadora db_residencia))"
proof -
  let ?g1 = "generar_alertas_vencimientos fixture 0 1 coordinadora db_residencia"
  let ?g2 = "generar_alertas_vencimiento fixture 0 1 coordinadora db_residencia"
  have f1: "fst ?g1 = Inr 2" by code_simp
  have f2: "fst ?g2 = Inr 3" by code_simp
  have p1: "?g1 = (Inr 2, snd ?g1)" using f1 by (metis prod.collapse)
  have p2: "?g2 = (Inr 3, snd ?g2)" using f2 by (metis prod.collapse)
  from generadores_idempotentes [of fixture 0 1 coordinadora db_residencia "Inr 2" "snd ?g1"
         60 otro_admin "Inr 3" "snd ?g2"] p1 p2 f1 f2
  show ?thesis by simp
qed

text \<open>
  The second run does not return 0 on every database: with a well-formed follow-up
  followed by one without \<open>nna_id\<close>, the first run inserts one alert and ends in
  KeyError, and the second run ends in the same KeyError.
\<close>

theorem segunda_ejecucion_no_devuelve_cero:
  "fst (generar_alertas_vencimientos fixture 0 1 coordinadora db_segundo_malformado) =
     Inl (KeyError ''nna_id'') \<and>
   length (alertas (snd (generar_alertas_vencimientos fixture 0 1 coordinadora
       db_segundo_malformado))) = 1 \<and>
   fst (generar_alertas_vencimientos fixture 0 1 coordinadora
     (snd (generar_alertas_vencimientos fixture 0 1 coordinadora db_segundo_malformado))) =
     Inl (KeyError ''nna_id'') \<and>
   fst (generar_alertas_vencimientos fixture 0 1 coordinadora
     (snd (generar_alertas_vencimientos fixture 0 1 coordinadora db_segundo_malformado))) \<noteq>
     Inr 0"
  by code_simp

text \<open>
  C5. Every alert the judicial generator inserts has the priority its due date gives:
  at most 7 days remaining is critica, 8 to 15 days is alta, more than 15 days is media;
  a measure ending in 5 days yields critica, in 12 days alta, in 25 days media. The
  alert for a follow-up has priority alta when the intervention's priority is urgente
  and media otherwise.
\<close>

theorem prioridad_de_las_alertas:
  "(generar_alertas_vencimiento x now today cu db = (r, db') \<longrightarrow>
      (\<exists>new. alertas db' = alertas db @ new \<and>
             list_all (prioridad_segun_plazo x today) new)) \<and>
   (alerta_medida x now today cu medida db = Inr (db1, True) \<and>
    map_of medida ''fecha_termino'' = Some (VStr s) \<longrightarrow>
      (\<exists>a. alertas db1 = alertas db @ [a] \<and>
         (strptime x s = Some (today + 5) \<longrightarrow> map_of a ''prioridad'' = Some (VStr ''critica'')) \<and>
         (strptime x s = Some (today + 12) \<longrightarrow> map_of a ''prioridad'' = Some (VStr ''alta'')) \<and>
         (strptime x s = Some (today + 25) \<longrightarrow> map_of a ''prioridad'' = Some (VStr ''media'')))) \<and>
   (alerta_seguimiento x now cu interv db = Inr (db2, True) \<longrightarrow>
      (\<exists>a. alertas db2 = alertas db @ [a] \<and>
         (map_of interv ''prioridad'' = Some (VStr ''urgente'') \<longrightarrow>
            map_of a ''prioridad'' = Some (VStr ''alta'')) \<and>
         (map_of interv ''prioridad'' \<noteq> Some (VStr ''urgente'') \<longrightarrow>
            map_of a ''prioridad'' = Some (VStr ''media''))))"
proof -
  have 1: "\<exists>new. alertas db' = alertas db @ new \<and> list_all (prioridad_segun_plazo x today) new"
    if run: "generar_alertas_vencimiento x now today cu db = (r, db')"
  proof -
    from run have f: "for_each (alerta_medida x now today cu) (medidas_por_vencer x today db) db 0 =
        (r, db')"
      by (simp add: generar_alertas_vencimiento_def)
    have "added_with (prioridad_segun_plazo x today) db db'"
    proof (rule for_each_rel [where body = "alerta_medida x now today cu"
             and R = "added_with (prioridad_segun_plazo x today)", OF _ _ _ f])
      show "added_with (prioridad_segun_plazo x today) s s" for s
        by (rule added_with_refl)
      show "added_with (prioridad_segun_plazo x today) a c"
        if "added_with (prioridad_segun_plazo x today) a b"
           and "added_with (prioridad_segun_plazo x today) b c" for a b c
        using that by (rule added_with_trans)
      show "added_with (prioridad_segun_plazo x today) s s'"
        if "alerta_medida x now today cu c s = Inr (s', b)" for c s s' b
        using that by (rule alerta_medida_added)
    qed
    then show ?thesis by (simp add: added_with_def)
  qed
  have 2: "\<exists>a. alertas db1 = alertas db @ [a] \<and>
         (strptime x s = Some (today + 5) \<longrightarrow> map_of a ''prioridad'' = Some (VStr ''critica'')) \<and>
         (strptime x s = Some (today + 12) \<longrightarrow> map_of a ''prioridad'' = Some (VStr ''alta'')) \<and>
         (strptime x s = Some (today + 25) \<longrightarrow> map_of a ''prioridad'' = Some (VStr ''media''))"
    if "alerta_medida x now today cu medida db = Inr (db1, True)"
       and "map_of medida ''fecha_termino'' = Some (VStr s)"
    using alerta_medida_inserted [OF that(1)] that(2) by auto
  have 3: "\<exists>a. alertas db2 = alertas db @ [a] \<and>
         (map_of interv ''prioridad'' = Some (VStr ''urgente'') \<longrightarrow>
            map_of a ''prioridad'' = Some (VStr ''alta'')) \<and>
         (map_of interv ''prioridad'' \<noteq> Some (VStr ''urgente'') \<longrightarrow>
            map_of a ''prioridad'' = Some (VStr ''media''))"
    if "alerta_seguimiento x now cu interv db = Inr (db2, True)"
    using alerta_seguimiento_inserted [OF that] by auto
  from 1 2 3 show ?thesis by blast
qed

theorem prioridad_de_las_alertas_witness:
  "fst (generar_alertas_vencimiento fixture 0 1 coordinadora db_residencia) = Inr 3 \<and>
   list_all (prioridad_segun_plazo fixture 1)
     (alertas (snd (generar_alertas_vencimiento fixture 0 1 coordinadora db_residencia))) \<and>
   strptime fixture ''2025-01-06'' = Some (1 + 5) \<and>
   map_of (last (alertas (fst (projr
       (alerta_medida fixture 0 1 coordinadora medida_5_dias db_residencia))))) ''prioridad'' =
     Some (VStr ''critica'') \<and>
   map_of interv_urgente ''prioridad'' = Some (VStr ''urgente'') \<and>
   map_of (last (alertas (fst (projr
       (alerta_seguimiento fixture 0 coordinadora interv_urgente db_residencia))))) ''prioridad'' =
     Some (VStr ''alta'')"
proof -
  let ?g = "generar_alertas_vencimiento fixture 0 1 coordinadora db_residencia"
  let ?m = "alerta_medida fixture 0 1 coordinadora medida_5_dias db_residencia"
  let ?s = "alerta_seguimiento fixture 0 coordinadora interv_urgente db_residencia"
  have g: "?g = (fst ?g, snd ?g)" by simp
  have g3: "fst ?g = Inr 3" by code_simp
  have e: "alertas db_residencia = []" by (simp add: db_residencia_def)
  have m: "?m = Inr (fst (projr ?m), True)" by code_simp
  have ft: "map_of medida_5_dias ''fecha_termino'' = Some (VStr ''2025-01-06'')"
    by (simp add: medida_5_dias_def)
  have d: "strptime fixture ''2025-01-06'' = Some (1 + 5)" by code_simp
  have s: "?s = Inr (fst (projr ?s), True)" by code_simp
  have u: "map_of interv_urgente ''prioridad'' = Some (VStr ''urgente'')"
    by (simp add: interv_urgente_def)
  from prioridad_de_las_alertas [where x = fixture and now = 0 and today = 1
         and cu = coordinadora and db = db_residencia and r = "fst ?g" and db' = "snd ?g"
         and medida = medida_5_dias and ?db1.0 = "fst (projr ?m)" and s = "''2025-01-06''"
         and interv = interv_urgente and ?db2.0 = "fst (projr ?s)"]
       g m ft d s u e g3
  show ?thesis by auto
qed







end
